theory Spec2Isabelle
  imports Complex_Main
begin

section \<open>Decimal rendering of integers (Python's \<open>str\<close>)\<close>

definition digit_char :: "nat \<Rightarrow> char" where
  "digit_char d = ''0123456789'' ! d"

function str_nat :: "nat \<Rightarrow> string" where
  "str_nat n = (if n < 10 then [digit_char n] else str_nat (n div 10) @ [digit_char (n mod 10)])"
  by pat_completeness auto
termination
  by (relation "measure id") auto

declare str_nat.simps [simp del]

definition str_int :: "int \<Rightarrow> string" where
  "str_int i = (if i < 0 then CHR ''-'' # str_nat (nat (- i)) else str_nat (nat i))"

text \<open>The number that a string of decimal digits denotes.\<close>

definition digits_value :: "string \<Rightarrow> nat" where
  "digits_value s = foldl (\<lambda>a c. 10 * a + (of_char c - 48)) 0 s"

text \<open>Left-padding of a numeral with zeros up to a width: index 134 with five digits
  is \<open>00134\<close>.\<close>

definition pad_zeros :: "nat \<Rightarrow> string \<Rightarrow> string" where
  "pad_zeros w s = replicate (w - length s) CHR ''0'' @ s"

section \<open>The filename indexer\<close>

text \<open>\<open>np.power(10, n + 1)\<close> on Python integers is computed in numpy's default
  integer type, a signed 64-bit integer, and wraps around on overflow.\<close>

definition int64_wrap :: "int \<Rightarrow> int" where
  "int64_wrap x = (x + 2 ^ 63) mod 2 ^ 64 - 2 ^ 63"

definition np_power :: "int \<Rightarrow> nat \<Rightarrow> int" where
  "np_power b e = int64_wrap (b ^ e)"

text \<open>\<open>string_index[m] = '0' * (digit - m - 1)\<close> for \<open>m\<close> in \<open>range(digit)\<close>.\<close>

definition string_index_of :: "nat \<Rightarrow> string list" where
  "string_index_of digit = map (\<lambda>m. replicate (digit - m - 1) CHR ''0'') [0..<digit]"

text \<open>The second loop of \<open>_add_index_to_string\<close>: it returns from inside the loop at
  the first \<open>n\<close> with \<open>ind < 10^(n+1)\<close>; when the loop runs out the function falls off
  its end and the result is Python's \<open>None\<close>.\<close>

fun add_index_loop :: "string \<Rightarrow> int \<Rightarrow> string list \<Rightarrow> nat list \<Rightarrow> string option" where
  "add_index_loop string ind string_index [] = None"
| "add_index_loop string ind string_index (n # ns) =
     (if ind < np_power 10 (n + 1)
      then Some (string @ ''_'' @ string_index ! n @ str_int ind)
      else add_index_loop string ind string_index ns)"

definition add_index_to_string :: "string \<Rightarrow> int \<Rightarrow> nat \<Rightarrow> string option" where
  "add_index_to_string string ind digit =
     add_index_loop string ind (string_index_of digit) [0..<digit]"

section \<open>Errors and arrays\<close>

text \<open>The exceptions that the modelled code and the libraries under it can raise.
  \<open>DivideByZero\<close> stands for a floating-point division by zero: numpy only warns and
  produces an infinity or a NaN, which the numbers of this model cannot hold, so
  the event is reported as an outcome of its own.\<close>

datatype error = ValueError | TypeError | IndexError | KeyError | IOError
  | UnboundLocalError | AttributeError | DivideByZero

text \<open>An array is a dtype label, a shape and the elements in row-major order. Elements
  are rational numbers, as every finite value of a float or an integer type is one; NaN
  and infinities are not modelled.\<close>

datatype dtype = Float32 | Float64 | Int8 | Int16 | Int64 | UInt8 | UInt16

record ndarray =
  nd_dtype :: dtype
  nd_shape :: "nat list"
  nd_data :: "rat list"

text \<open>A numpy object is an array or a scalar of some dtype (\<open>np.float32(1.5)\<close>).\<close>

datatype pyobj = Ndarray ndarray | NpScalar dtype rat

text \<open>\<open>isinstance(obj, np.float32)\<close> and the like test the class of the object: they
  hold of a numpy scalar of that type, and of no array, whatever its dtype.\<close>

fun isinstance :: "pyobj \<Rightarrow> dtype \<Rightarrow> bool" where
  "isinstance (NpScalar t v) T = (t = T)"
| "isinstance (Ndarray a) T = False"

fun obj_values :: "pyobj \<Rightarrow> rat list" where
  "obj_values (Ndarray a) = nd_data a"
| "obj_values (NpScalar t v) = [v]"

fun obj_dtype :: "pyobj \<Rightarrow> dtype" where
  "obj_dtype (Ndarray a) = nd_dtype a"
| "obj_dtype (NpScalar t v) = t"

text \<open>\<open>np.max\<close> and \<open>np.min\<close> raise ValueError on an array without elements.\<close>

definition np_max :: "pyobj \<Rightarrow> error + rat" where
  "np_max obj = (if obj_values obj = [] then Inl ValueError else Inr (Max (set (obj_values obj))))"

definition np_min :: "pyobj \<Rightarrow> error + rat" where
  "np_min obj = (if obj_values obj = [] then Inl ValueError else Inr (Min (set (obj_values obj))))"

subsection \<open>Conversions between dtypes\<close>

text \<open>The rounding of floating-point arithmetic is a parameter of the model: \<open>fl t x\<close> is
  the value of the float type \<open>t\<close> that the exact number \<open>x\<close> is rounded to. The
  definitions apply it wherever numpy or Python rounds: at each arithmetic operation on
  floats and at each conversion of a number to a float type.\<close>

type_synonym rounding = "dtype \<Rightarrow> rat \<Rightarrow> rat"

definition is_float :: "dtype \<Rightarrow> bool" where
  "is_float t = (t = Float32 \<or> t = Float64)"

definition is_signed :: "dtype \<Rightarrow> bool" where
  "is_signed t = (t = Int8 \<or> t = Int16 \<or> t = Int64)"

fun int_bits :: "dtype \<Rightarrow> nat" where
  "int_bits Int8 = 8"
| "int_bits Int16 = 16"
| "int_bits Int64 = 64"
| "int_bits UInt8 = 8"
| "int_bits UInt16 = 16"
| "int_bits Float32 = 32"
| "int_bits Float64 = 64"

text \<open>Integer arithmetic and the conversion of an integer to an integer type wrap around
  (two's complement).\<close>

definition wrap_int :: "dtype \<Rightarrow> int \<Rightarrow> int" where
  "wrap_int t z =
     (if is_signed t then (z + 2 ^ (int_bits t - 1)) mod 2 ^ int_bits t - 2 ^ (int_bits t - 1)
      else z mod 2 ^ int_bits t)"

text \<open>The conversion of a float to an integer type drops the fractional part (truncation
  towards zero). For the types of at most 32 bits the integer is then taken through a
  32-bit signed integer and wrapped to the width of the type; a value that does not fit
  32 bits gives \<open>-2^31\<close> there, which wraps to 0. For \<open>int64\<close> a value that does not fit
  gives \<open>-2^63\<close>. (This is the behaviour of the conversion instructions of x86-64, on
  which numpy relies.)\<close>

definition trunc_rat :: "rat \<Rightarrow> int" where
  "trunc_rat v = (if 0 \<le> v then \<lfloor>v\<rfloor> else \<lceil>v\<rceil>)"

definition float_to_int :: "dtype \<Rightarrow> rat \<Rightarrow> int" where
  "float_to_int t x =
     (let z = trunc_rat x
      in if t = Int64 then (if - (2 ^ 63) \<le> z \<and> z < 2 ^ 63 then z else - (2 ^ 63))
         else (if - (2 ^ 31) \<le> z \<and> z < 2 ^ 31 then wrap_int t z else 0))"

text \<open>\<open>astype('uint8')\<close>, \<open>astype('uint16')\<close>: each element is converted from the dtype
  \<open>src\<close> of the array to the integer type \<open>target\<close>.\<close>

definition cast_elem :: "dtype \<Rightarrow> dtype \<Rightarrow> rat \<Rightarrow> rat" where
  "cast_elem target src x =
     of_int (if is_float src then float_to_int target x else wrap_int target (trunc_rat x))"

fun astype_int :: "dtype \<Rightarrow> pyobj \<Rightarrow> pyobj" where
  "astype_int t (Ndarray a) =
     Ndarray \<lparr>nd_dtype = t, nd_shape = nd_shape a, nd_data = map (cast_elem t (nd_dtype a)) (nd_data a)\<rparr>"
| "astype_int t (NpScalar t0 v) = NpScalar t (cast_elem t t0 v)"

text \<open>A bound \<open>dmin\<close> or \<open>dmax\<close> is a Python float supplied by the caller, or the numpy
  scalar that \<open>np.min\<close> or \<open>np.max\<close> returned, which has the dtype of the array.\<close>

datatype bound = PyFloat rat | NpVal dtype rat

fun bound_val :: "bound \<Rightarrow> rat" where
  "bound_val (PyFloat v) = v"
| "bound_val (NpVal t v) = v"

fun bound_is_float :: "bound \<Rightarrow> bool" where
  "bound_is_float (PyFloat v) = True"
| "bound_is_float (NpVal t v) = is_float t"

text \<open>\<open>arr > dmax\<close> and \<open>arr < dmin\<close>: against a float array the bound is first converted
  to the dtype of the array; against an integer array the comparison is one of float64
  numbers, taken as exact here.\<close>

definition compare_value :: "rounding \<Rightarrow> dtype \<Rightarrow> bound \<Rightarrow> rat" where
  "compare_value fl t b = (if is_float t then fl t (bound_val b) else bound_val b)"

text \<open>\<open>arr[mask] = dmax\<close>: the bound is converted to the dtype of the array it is stored
  into. An integer array keeps the integer part of a float.\<close>

definition store_value :: "rounding \<Rightarrow> dtype \<Rightarrow> bound \<Rightarrow> rat" where
  "store_value fl t b =
     (if is_float t then fl t (bound_val b)
      else of_int (if bound_is_float b then float_to_int t (bound_val b)
                   else wrap_int t (trunc_rat (bound_val b))))"

text \<open>The masked store into the array. A numpy scalar does not support item assignment
  (TypeError).\<close>

fun store_where :: "(rat \<Rightarrow> bool) \<Rightarrow> rat \<Rightarrow> pyobj \<Rightarrow> error + pyobj" where
  "store_where P c (Ndarray a) =
     Inr (Ndarray (a\<lparr>nd_data := map (\<lambda>x. if P x then c else x) (nd_data a)\<rparr>))"
| "store_where P c (NpScalar t v) = Inl TypeError"

text \<open>\<open>dmax - dmin\<close> is a subtraction of scalars: of two numpy scalars of the dtype of the
  array when both bounds were left unset (rounded for a float type, wrapped around for
  an integer type), and of float64 numbers when a Python float takes part.\<close>

fun bound_diff :: "rounding \<Rightarrow> bound \<Rightarrow> bound \<Rightarrow> rat" where
  "bound_diff fl (NpVal t hi) (NpVal t' lo) =
     (if t = t' then (if is_float t then fl t (hi - lo) else of_int (wrap_int t (trunc_rat (hi - lo))))
      else fl Float64 (hi - lo))"
| "bound_diff fl hi lo = fl Float64 (bound_val hi - bound_val lo)"

text \<open>\<open>(arr * 1.0 - dmin) / (dmax - dmin) * fac\<close>, elementwise (\<open>fac\<close> is 255 or 65535).
  The product with \<open>1.0\<close> is a float32 array for a float32 array and a float64 array
  otherwise (\<open>float_of_dtype\<close>); the scalars \<open>dmin\<close> and \<open>dmax - dmin\<close> are converted to that
  type, and each of the four array operations rounds to it. \<open>float_scaled\<close> is the value
  computed for one element, given the converted divisor \<open>d\<close>. A zero divisor is reported
  as \<open>DivideByZero\<close>.\<close>

definition float_of_dtype :: "dtype \<Rightarrow> dtype" where
  "float_of_dtype t = (if t = Float32 then Float32 else Float64)"

definition float_scaled :: "rounding \<Rightarrow> dtype \<Rightarrow> rat \<Rightarrow> rat \<Rightarrow> rat \<Rightarrow> rat \<Rightarrow> rat" where
  "float_scaled fl ft fac lo d x = fl ft (fl ft (fl ft (fl ft (x * 1) - fl ft lo) / d) * fac)"

definition rescale :: "rounding \<Rightarrow> rat \<Rightarrow> bound \<Rightarrow> bound \<Rightarrow> pyobj \<Rightarrow> error + pyobj" where
  "rescale fl fac dmin dmax obj =
     (let ft = float_of_dtype (obj_dtype obj);
          d = fl ft (bound_diff fl dmax dmin)
      in if d = 0 then Inl DivideByZero
         else (case obj of
                 Ndarray a \<Rightarrow>
                   Inr (Ndarray \<lparr>nd_dtype = ft, nd_shape = nd_shape a,
                          nd_data = map (float_scaled fl ft fac (bound_val dmin) d) (nd_data a)\<rparr>)
               | NpScalar t v \<Rightarrow> Inr (NpScalar ft (float_scaled fl ft fac (bound_val dmin) d v))))"

section \<open>Array normalizers\<close>

text \<open>\<open>np.array(arr, dtype='float32')\<close> builds a new float32 array with the values of
  its argument (a scalar gives an array without dimensions).\<close>

fun np_array_float32 :: "pyobj \<Rightarrow> pyobj" where
  "np_array_float32 (Ndarray a) =
     Ndarray \<lparr>nd_dtype = Float32, nd_shape = nd_shape a, nd_data = nd_data a\<rparr>"
| "np_array_float32 (NpScalar t v) =
     Ndarray \<lparr>nd_dtype = Float32, nd_shape = [], nd_data = [v]\<rparr>"

text \<open>\<open>as_float32\<close> on the object itself: \<open>None\<close> when the argument is handed back as it
  is, \<open>Some\<close> of the newly built array otherwise.\<close>

definition as_float32_obj :: "pyobj \<Rightarrow> pyobj option" where
  "as_float32_obj arr =
     (if \<not> isinstance arr Float32 then Some (np_array_float32 arr) else None)"

text \<open>\<open>as_float32\<close> on references: the heap is the list of the live objects, a reference
  is an index into it, and a new object is appended. The result is the returned
  reference and the heap after the call.\<close>

definition as_float32 :: "pyobj list \<Rightarrow> nat \<Rightarrow> nat \<times> pyobj list" where
  "as_float32 h arr =
     (case as_float32_obj (h ! arr) of
        None \<Rightarrow> (arr, h)
      | Some new \<Rightarrow> (length h, h @ [new]))"

text \<open>\<open>as_uint8\<close> and \<open>as_uint16\<close> are the same text up to three constants: the scalar
  class of the \<open>isinstance\<close> test, the target type of \<open>astype\<close>, and the factor of the
  rescaling. \<open>as_uint\<close> is that text; \<open>arr.copy()\<close> makes the function work on an array of
  its own, so the argument is not changed and the model is a function of values. \<open>None\<close>
  for \<open>dmin\<close> or \<open>dmax\<close> is Python's \<open>None\<close>.\<close>

definition as_uint ::
  "rounding \<Rightarrow> dtype \<Rightarrow> dtype \<Rightarrow> rat \<Rightarrow> pyobj \<Rightarrow> bound option \<Rightarrow> bound option \<Rightarrow> error + pyobj" where
  "as_uint fl guard target fac arr dmin dmax =
     (if \<not> isinstance arr guard then
        (case (case dmax of None \<Rightarrow> map_sum id (NpVal (obj_dtype arr)) (np_max arr) | Some v \<Rightarrow> Inr v) of
           Inl e \<Rightarrow> Inl e
         | Inr dmax1 \<Rightarrow>
        (case (case dmin of None \<Rightarrow> map_sum id (NpVal (obj_dtype arr)) (np_min arr) | Some v \<Rightarrow> Inr v) of
           Inl e \<Rightarrow> Inl e
         | Inr dmin1 \<Rightarrow>
        (case np_max arr of
           Inl e \<Rightarrow> Inl e
         | Inr mx \<Rightarrow>
        (case (if bound_val dmax1 < mx
               then store_where (\<lambda>x. x > compare_value fl (obj_dtype arr) dmax1)
                      (store_value fl (obj_dtype arr) dmax1) arr
               else Inr arr) of
           Inl e \<Rightarrow> Inl e
         | Inr arr1 \<Rightarrow>
        (case np_min arr1 of
           Inl e \<Rightarrow> Inl e
         | Inr mn \<Rightarrow>
        (case (if bound_val dmin1 > mn
               then store_where (\<lambda>x. x < compare_value fl (obj_dtype arr1) dmin1)
                      (store_value fl (obj_dtype arr1) dmin1) arr1
               else Inr arr1) of
           Inl e \<Rightarrow> Inl e
         | Inr arr2 \<Rightarrow>
        (if bound_val dmax1 = bound_val dmin1 then Inr (astype_int target arr2)
         else (case rescale fl fac dmin1 dmax1 arr2 of
                 Inl e \<Rightarrow> Inl e
               | Inr scaled \<Rightarrow> Inr (astype_int target scaled)))))))))
      else Inr arr)"

definition as_uint8 :: "rounding \<Rightarrow> pyobj \<Rightarrow> bound option \<Rightarrow> bound option \<Rightarrow> error + pyobj" where
  "as_uint8 fl arr dmin dmax = as_uint fl Int8 UInt8 255 arr dmin dmax"

definition as_uint16 :: "rounding \<Rightarrow> pyobj \<Rightarrow> bound option \<Rightarrow> bound option \<Rightarrow> error + pyobj" where
  "as_uint16 fl arr dmin dmax = as_uint fl Int16 UInt16 65535 arr dmin dmax"

text \<open>The bounds in force: the one supplied, or the extremum of the array as passed.\<close>

definition eff_dmax :: "ndarray \<Rightarrow> rat option \<Rightarrow> rat" where
  "eff_dmax a dmax = (case dmax of None \<Rightarrow> Max (set (nd_data a)) | Some v \<Rightarrow> v)"

definition eff_dmin :: "ndarray \<Rightarrow> rat option \<Rightarrow> rat" where
  "eff_dmin a dmin = (case dmin of None \<Rightarrow> Min (set (nd_data a)) | Some v \<Rightarrow> v)"

text \<open>The two masked stores in the order of the code, on the elements of an array of
  dtype \<open>t\<close>: first the values above \<open>dmax\<close>, then the values below \<open>dmin\<close>.\<close>

definition clip_data :: "rounding \<Rightarrow> dtype \<Rightarrow> bound \<Rightarrow> bound \<Rightarrow> rat list \<Rightarrow> rat list" where
  "clip_data fl t lo hi xs =
     map (\<lambda>x. if x < compare_value fl t lo then store_value fl t lo else x)
       (map (\<lambda>x. if x > compare_value fl t hi then store_value fl t hi else x) xs)"

text \<open>The same stores under the guards of the code, \<open>dmax < np.max(arr)\<close> and
  \<open>dmin > np.min(arr)\<close>, which compare the bounds as they are.\<close>

definition clip_guarded :: "rounding \<Rightarrow> dtype \<Rightarrow> bound \<Rightarrow> bound \<Rightarrow> rat list \<Rightarrow> rat list" where
  "clip_guarded fl t lo hi xs =
     (let xs1 = (if bound_val hi < Max (set xs)
                 then map (\<lambda>x. if x > compare_value fl t hi then store_value fl t hi else x) xs
                 else xs)
      in if bound_val lo > Min (set xs1)
         then map (\<lambda>x. if x < compare_value fl t lo then store_value fl t lo else x) xs1
         else xs1)"

text \<open>The bound in force as the code holds it: the one supplied, or the numpy scalar of
  the extremum.\<close>

definition bound_or :: "bound option \<Rightarrow> dtype \<Rightarrow> rat \<Rightarrow> bound" where
  "bound_or b t v = (case b of None \<Rightarrow> NpVal t v | Some c \<Rightarrow> c)"

text \<open>An array holds values of its dtype: floats that \<open>fl\<close> leaves as they are, or
  integers within the range of the integer type.\<close>

definition well_typed :: "rounding \<Rightarrow> ndarray \<Rightarrow> bool" where
  "well_typed fl a =
     list_all (\<lambda>x. if is_float (nd_dtype a) then fl (nd_dtype a) x = x
                   else x = of_int (trunc_rat x) \<and> wrap_int (nd_dtype a) (trunc_rat x) = trunc_rat x)
       (nd_data a)"

text \<open>The properties of rounding to nearest (IEEE 754) that the proofs rely on, for each
  float type: rounding is monotone, it leaves a value of the type as it is, the
  numbers 0, 1, 255 and 65535 are values of the type, the rounded difference of two
  distinct values of the type is not zero, and rounding the difference of two values
  of the type to float64 first does not change its rounding to the type.\<close>

definition ieee_rounding :: "rounding \<Rightarrow> bool" where
  "ieee_rounding fl =
     (\<forall>t. is_float t \<longrightarrow>
        (\<forall>x y. x \<le> y \<longrightarrow> fl t x \<le> fl t y) \<and>
        (\<forall>x. fl t (fl t x) = fl t x) \<and>
        fl t 0 = 0 \<and> fl t 1 = 1 \<and> fl t 255 = 255 \<and> fl t 65535 = 65535 \<and>
        (\<forall>x y. fl t x = x \<and> fl t y = y \<and> x < y \<longrightarrow> 0 < fl t (y - x)) \<and>
        (\<forall>x y. fl t x = x \<and> fl t y = y \<longrightarrow> fl t (fl Float64 (y - x)) = fl t (y - x)))"

text \<open>The specification in its own words: a value outside \<open>[dmin, dmax]\<close> is replaced by
  the nearer bound (\<open>clamp_val\<close>), and the rescaled value is rounded to the nearest integer
  (\<open>rounded_value\<close>).\<close>

definition clamp_val :: "rat \<Rightarrow> rat \<Rightarrow> rat \<Rightarrow> rat" where
  "clamp_val lo hi v = (if v < lo then lo else if hi < v then hi else v)"

definition rounded_value :: "rat \<Rightarrow> rat \<Rightarrow> rat \<Rightarrow> rat \<Rightarrow> rat" where
  "rounded_value fac lo hi v = of_int (round ((clamp_val lo hi v - lo) / (hi - lo) * fac))"

text \<open>The floating-point computation for one element \<open>v\<close> of an array of the float type
  \<open>t\<close>: three roundings, of the difference, of the quotient and of the product.\<close>

definition float_value :: "rounding \<Rightarrow> dtype \<Rightarrow> rat \<Rightarrow> rat \<Rightarrow> rat \<Rightarrow> rat \<Rightarrow> rat" where
  "float_value fl t fac lo hi v =
     fl t (fl t (fl t (clamp_val lo hi v - lo) / fl t (hi - lo)) * fac)"
section \<open>Paths and the file system\<close>

text \<open>HDF5 files hold named nodes, TIFF files hold one image. The file system is the
  current directory (the path below the root), the files by absolute path (an
  association list, the first entry of a path is its content) and the directories that
  are known to exist. Paths are taken as they are written: \<open>os.path.abspath\<close> prefixes
  the current directory to a relative path and does not normalise \<open>.\<close>, \<open>..\<close> or repeated
  separators; every file operation of the libraries resolves its path in the same way.
  Creating a file is taken to succeed.\<close>

datatype h5node = H5Group | H5String string | H5Dataset ndarray

type_synonym h5file = "(string \<times> h5node) list"

datatype fcontent = TiffFile ndarray | Hdf5File h5file | OtherFile

record filesystem =
  fs_cwd :: string
  fs_files :: "(string \<times> fcontent) list"
  fs_dirs :: "string list"

definition getcwd :: "filesystem \<Rightarrow> string" where
  "getcwd fs = CHR ''/'' # fs_cwd fs"

definition abspath :: "filesystem \<Rightarrow> string \<Rightarrow> string" where
  "abspath fs p =
     (if p = [] then getcwd fs
      else if hd p = CHR ''/'' then p
      else getcwd fs @ ''/'' @ p)"

definition rstrip_slash :: "string \<Rightarrow> string" where
  "rstrip_slash p = rev (dropWhile (\<lambda>c. c = CHR ''/'') (rev p))"

text \<open>\<open>os.path.dirname\<close>: the part up to the last separator, without trailing separators
  unless it consists of separators only.\<close>

definition dirname :: "string \<Rightarrow> string" where
  "dirname p =
     (let head = rev (dropWhile (\<lambda>c. c \<noteq> CHR ''/'') (rev p))
      in if head \<noteq> [] \<and> rstrip_slash head \<noteq> [] then rstrip_slash head else head)"

definition lookup_file :: "filesystem \<Rightarrow> string \<Rightarrow> fcontent option" where
  "lookup_file fs p = map_of (fs_files fs) (abspath fs p)"

definition isfile :: "filesystem \<Rightarrow> string \<Rightarrow> bool" where
  "isfile fs p = (lookup_file fs p \<noteq> None)"

definition path_exists :: "filesystem \<Rightarrow> string \<Rightarrow> bool" where
  "path_exists fs p = (isfile fs p \<or> abspath fs p \<in> set (fs_dirs fs))"

definition makedirs :: "filesystem \<Rightarrow> string \<Rightarrow> filesystem" where
  "makedirs fs p = fs\<lparr>fs_dirs := abspath fs p # fs_dirs fs\<rparr>"

definition write_file :: "filesystem \<Rightarrow> string \<Rightarrow> fcontent \<Rightarrow> filesystem" where
  "write_file fs p f = fs\<lparr>fs_files := (abspath fs p, f) # fs_files fs\<rparr>"

section \<open>Collision-avoiding file names\<close>

text \<open>Python's \<open>fname.split(".")\<close>.\<close>

fun split_dot :: "string \<Rightarrow> string list" where
  "split_dot [] = [[]]"
| "split_dot (c # cs) =
     (if c = CHR ''.'' then [] # split_dot cs
      else (case split_dot cs of
              [] \<Rightarrow> [[c]]
            | w # ws \<Rightarrow> (c # w) # ws))"

text \<open>The \<open>while\<close> loop of \<open>_suggest_new_fname\<close>: it ends at the first index whose
  candidate name is not a file. A run that never ends has the value \<open>None\<close>.\<close>

partial_function (option) suggest_loop :: "filesystem \<Rightarrow> string \<Rightarrow> string \<Rightarrow> nat \<Rightarrow> string option" where
  "suggest_loop fs fname ext indq =
     (if \<not> isfile fs ((fname @ ''-'' @ str_nat indq) @ ext)
      then Some (fname @ ''-'' @ str_nat indq)
      else suggest_loop fs fname ext (indq + 1))"

declare suggest_loop.simps [code]

text \<open>\<open>fname.split(".")[-1]\<close> always exists; \<open>fname.split(".")[-2]\<close> raises IndexError for
  a name without a dot.\<close>

definition suggest_new_fname :: "filesystem \<Rightarrow> string \<Rightarrow> (error + string) option" where
  "suggest_new_fname fs fname =
     (let parts = split_dot fname;
          ext = ''.'' @ last parts
      in if length parts < 2 then Some (Inl IndexError)
         else (case suggest_loop fs (parts ! (length parts - 2)) ext 1 of
                 None \<Rightarrow> None
               | Some fname1 \<Rightarrow> Some (Inr (fname1 @ ext))))"

section \<open>Slicing\<close>

text \<open>A slice is a pair \<open>(start, stop)\<close> of natural numbers; on an axis of length \<open>n\<close> it
  selects the indices from \<open>min start n\<close> up to, excluding, \<open>min stop n\<close>.\<close>

type_synonym slice = "nat \<times> nat"

fun slice_nd :: "nat list \<Rightarrow> slice list \<Rightarrow> rat list \<Rightarrow> rat list" where
  "slice_nd (n # shape) ((a, b) # rs) xs =
     concat (map (\<lambda>i. slice_nd shape rs (take (prod_list shape) (drop (i * prod_list shape) xs)))
               [min a n ..< min b n])"
| "slice_nd shape rs xs = xs"

definition index_nd :: "ndarray \<Rightarrow> slice list \<Rightarrow> ndarray" where
  "index_nd arr rs =
     arr\<lparr>nd_shape := map (\<lambda>(n, (a, b)). min b n - min a n) (zip (nd_shape arr) rs),
         nd_data := slice_nd (nd_shape arr) rs (nd_data arr)\<rparr>"

definition slice_or_full :: "slice option \<Rightarrow> nat \<Rightarrow> slice" where
  "slice_or_full d n = (case d of None \<Rightarrow> (0, n) | Some s \<Rightarrow> s)"

definition slice_array ::
  "ndarray \<Rightarrow> slice option \<Rightarrow> slice option \<Rightarrow> slice option \<Rightarrow> slice option \<Rightarrow> ndarray" where
  "slice_array arr dim1 dim2 dim3 dim4 =
     (let sh = nd_shape arr in
      if length sh = 1 then
        index_nd arr [slice_or_full dim1 (sh ! 0)]
      else if length sh = 2 then
        index_nd arr [slice_or_full dim1 (sh ! 0), slice_or_full dim2 (sh ! 1)]
      else if length sh = 3 then
        index_nd arr [slice_or_full dim1 (sh ! 0), slice_or_full dim2 (sh ! 1),
                      slice_or_full dim3 (sh ! 2)]
      else if length sh = 4 then
        index_nd arr [slice_or_full dim1 (sh ! 0), slice_or_full dim2 (sh ! 1),
                      slice_or_full dim3 (sh ! 2), slice_or_full dim4 (sh ! 3)]
      else arr)"

section \<open>HDF5 reader and writer\<close>

text \<open>\<open>create_dataset\<close> and \<open>create_group\<close> raise ValueError for an empty name and for a
  name that is taken. Names are compared as written.\<close>

definition h5_create :: "h5file \<Rightarrow> string \<Rightarrow> h5node \<Rightarrow> error + h5file" where
  "h5_create f name node =
     (if name = [] \<or> name \<in> fst ` set f then Inl ValueError else Inr (f @ [(name, node)]))"

text \<open>The layout of a written file: the marker dataset \<open>implements\<close>, the group, and the
  payload as the dataset \<open>data\<close> in the group.\<close>

definition h5_layout :: "string \<Rightarrow> ndarray \<Rightarrow> h5file" where
  "h5_layout gname data =
     [(''implements'', H5String ''exchange''), (gname, H5Group), (gname @ ''/data'', H5Dataset data)]"

text \<open>\<open>write_hdf5\<close>. The result is the file system after the call; what an exception
  leaves on disk is not tracked.\<close>

definition write_hdf5 ::
  "filesystem \<Rightarrow> ndarray \<Rightarrow> string \<Rightarrow> string \<Rightarrow> bool \<Rightarrow> (error + filesystem) option" where
  "write_hdf5 fs data fname gname overwrite =
     (let fname1 = fname @ ''.h5'' in
      case (if \<not> overwrite \<and> isfile fs fname1 then suggest_new_fname fs fname1
            else Some (Inr fname1)) of
        None \<Rightarrow> None
      | Some (Inl e) \<Rightarrow> Some (Inl e)
      | Some (Inr fname2) \<Rightarrow>
          Some (case h5_create [] ''implements'' (H5String ''exchange'') of
                  Inl e \<Rightarrow> Inl e
                | Inr f1 \<Rightarrow>
               (case h5_create f1 gname H5Group of
                  Inl e \<Rightarrow> Inl e
                | Inr f2 \<Rightarrow>
               (case h5_create f2 (gname @ ''/data'') (H5Dataset data) of
                  Inl e \<Rightarrow> Inl e
                | Inr f3 \<Rightarrow> Inr (write_file fs fname2 (Hdf5File f3))))))"

text \<open>\<open>read_hdf5\<close>: a missing or non-HDF5 file is an IOError of \<open>h5py.File\<close>, a missing
  name a KeyError of \<open>f[gname]\<close>; a group has no \<open>shape\<close> (AttributeError) and a scalar
  string dataset cannot be sliced with \<open>arr[:]\<close> (ValueError).\<close>

definition read_hdf5 ::
  "filesystem \<Rightarrow> string \<Rightarrow> string \<Rightarrow> slice option \<Rightarrow> slice option \<Rightarrow> slice option \<Rightarrow> slice option
     \<Rightarrow> error + ndarray" where
  "read_hdf5 fs fname gname dim1 dim2 dim3 dim4 =
     (let fname1 = abspath fs fname in
      case lookup_file fs fname1 of
        Some (Hdf5File f) \<Rightarrow>
          (case map_of f gname of
             None \<Rightarrow> Inl KeyError
           | Some H5Group \<Rightarrow> Inl AttributeError
           | Some (H5String s) \<Rightarrow> Inl ValueError
           | Some (H5Dataset data) \<Rightarrow> Inr (slice_array data dim1 dim2 dim3 dim4))
      | _ \<Rightarrow> Inl IOError)"

section \<open>TIFF stacks\<close>

text \<open>\<open>sio.imread\<close> and \<open>sio.imsave\<close> with the tifffile plugin: an image file holds the
  array that was saved, with its dtype. Reading a path that is not a TIFF file raises
  IOError.\<close>

definition imread :: "filesystem \<Rightarrow> string \<Rightarrow> error + ndarray" where
  "imread fs p = (case lookup_file fs p of Some (TiffFile img) \<Rightarrow> Inr img | _ \<Rightarrow> Inl IOError)"

fun obj_array :: "pyobj \<Rightarrow> ndarray" where
  "obj_array (Ndarray a) = a"
| "obj_array (NpScalar t v) = \<lparr>nd_dtype = t, nd_shape = [], nd_data = [v]\<rparr>"

definition imsave :: "filesystem \<Rightarrow> string \<Rightarrow> pyobj \<Rightarrow> filesystem" where
  "imsave fs p arr = write_file fs p (TiffFile (obj_array arr))"

text \<open>The inner loop of \<open>read_tiff_stack\<close> stops (\<open>break\<close>) at the first \<open>n\<close> in
  \<open>range(digit)\<close> with \<open>m < 10^(n+1)\<close>; when there is none the index \<open>m\<close> is passed over.\<close>

fun find_bracket :: "int \<Rightarrow> nat list \<Rightarrow> nat option" where
  "find_bracket m [] = None"
| "find_bracket m (n # ns) = (if m < np_power 10 (n + 1) then Some n else find_bracket m ns)"

text \<open>\<open>data[a] = out\<close>: the image is broadcast to the shape \<open>(sy, sz)\<close> of a slice of the
  buffer (leading axes of length one are dropped, an axis of length one is repeated) and
  stored at position \<open>a\<close>; IndexError when \<open>a\<close> is outside the buffer, ValueError when
  the shapes do not fit.\<close>

definition broadcast2 :: "ndarray \<Rightarrow> nat \<Rightarrow> nat \<Rightarrow> rat list option" where
  "broadcast2 out sy sz =
     (let s = nd_shape out;
          lead = take (length s - 2) s;
          tl2 = drop (length s - 2) s;
          rc = replicate (2 - length tl2) 1 @ tl2;
          r = rc ! 0;
          c = rc ! 1
      in if (\<forall>x \<in> set lead. x = 1) \<and> (r = sy \<or> r = 1) \<and> (c = sz \<or> c = 1)
         then Some (concat (map (\<lambda>j. map (\<lambda>k. nd_data out !
                       ((if r = 1 then 0 else j) * c + (if c = 1 then 0 else k))) [0..<sz]) [0..<sy]))
         else None)"

definition store_slice :: "ndarray \<Rightarrow> nat \<Rightarrow> ndarray \<Rightarrow> error + ndarray" where
  "store_slice buf a out =
     (case nd_shape buf of
        [sx, sy, sz] \<Rightarrow>
          (if sx \<le> a then Inl IndexError
           else (case broadcast2 out sy sz of
                   None \<Rightarrow> Inl ValueError
                 | Some vals \<Rightarrow>
                     Inr (buf\<lparr>nd_data := take (a * (sy * sz)) (nd_data buf) @ vals
                                           @ drop ((a + 1) * (sy * sz)) (nd_data buf)\<rparr>)))
      | _ \<Rightarrow> Inl ValueError)"

definition np_zeros3 :: "nat \<Rightarrow> nat \<Rightarrow> nat \<Rightarrow> ndarray" where
  "np_zeros3 sx sy sz =
     \<lparr>nd_dtype = Float32, nd_shape = [sx, sy, sz], nd_data = replicate (sx * sy * sz) 0\<rparr>"

text \<open>One round of the outer loop of \<open>read_tiff_stack\<close>, on the loop state: the counter
  \<open>a\<close> and the buffer \<open>data\<close>, which is unbound (\<open>None\<close>) until the first image is read.
  \<open>sy, sz = out.shape\<close> raises ValueError for an image that is not two-dimensional.\<close>

definition read_slice ::
  "filesystem \<Rightarrow> string \<Rightarrow> string list \<Rightarrow> string \<Rightarrow> nat \<Rightarrow> nat \<Rightarrow> int \<Rightarrow> nat \<times> ndarray option
     \<Rightarrow> error + nat \<times> ndarray option" where
  "read_slice fs fname d ext digit sx m st =
     (case find_bracket m [0..<digit] of
        None \<Rightarrow> Inr st
      | Some n \<Rightarrow>
          (case imread fs (fname @ d ! n @ str_int m @ ''.'' @ ext) of
             Inl e \<Rightarrow> Inl e
           | Inr out \<Rightarrow>
               (case (if fst st = 0
                      then (case nd_shape out of
                              [sy, sz] \<Rightarrow> Inr (Some (np_zeros3 sx sy sz))
                            | _ \<Rightarrow> Inl ValueError)
                      else Inr (snd st)) of
                  Inl e \<Rightarrow> Inl e
                | Inr None \<Rightarrow> Inl UnboundLocalError
                | Inr (Some buf) \<Rightarrow>
                    (case store_slice buf (fst st) out of
                       Inl e \<Rightarrow> Inl e
                     | Inr buf1 \<Rightarrow> Inr (fst st + 1, Some buf1)))))"

fun read_slices ::
  "filesystem \<Rightarrow> string \<Rightarrow> string list \<Rightarrow> string \<Rightarrow> nat \<Rightarrow> nat \<Rightarrow> int list \<Rightarrow> nat \<times> ndarray option
     \<Rightarrow> error + nat \<times> ndarray option" where
  "read_slices fs fname d ext digit sx [] st = Inr st"
| "read_slices fs fname d ext digit sx (m # ms) st =
     (case read_slice fs fname d ext digit sx m st of
        Inl e \<Rightarrow> Inl e
      | Inr st1 \<Rightarrow> read_slices fs fname d ext digit sx ms st1)"

text \<open>\<open>read_tiff_stack\<close>; \<open>span_ix\<close> (the parameter \<open>span\<close>) is the pair of the first and the last index.
  \<open>return data\<close> raises UnboundLocalError when no image was read.\<close>

definition read_tiff_stack ::
  "filesystem \<Rightarrow> string \<Rightarrow> int \<times> int \<Rightarrow> nat \<Rightarrow> string \<Rightarrow> error + ndarray" where
  "read_tiff_stack fs fname span_ix digit ext =
     (let d = map (\<lambda>x. replicate (digit - x - 1) CHR ''0'') [0..<digit];
          ind = [fst span_ix .. snd span_ix + 1 - 1]
      in case read_slices fs fname d ext digit (length ind) ind (0, None) of
           Inl e \<Rightarrow> Inl e
         | Inr (a, None) \<Rightarrow> Inl UnboundLocalError
         | Inr (a, Some data) \<Rightarrow> Inr data)"

text \<open>The planes \<open>data[m, :, :]\<close>, \<open>data[:, m, :]\<close> and \<open>data[:, :, m]\<close> of a
  three-dimensional array.\<close>

definition plane :: "ndarray \<Rightarrow> int \<Rightarrow> nat \<Rightarrow> ndarray" where
  "plane data axis m =
     (case nd_shape data of
        [nx, ny, nz] \<Rightarrow>
          (if axis = 0 then
             data\<lparr>nd_shape := [ny, nz],
                  nd_data := take (ny * nz) (drop (m * (ny * nz)) (nd_data data))\<rparr>
           else if axis = 1 then
             data\<lparr>nd_shape := [nx, nz],
                  nd_data := concat (map (\<lambda>i. map (\<lambda>k. nd_data data ! ((i * ny + m) * nz + k))
                                                [0..<nz]) [0..<nx])\<rparr>
           else
             data\<lparr>nd_shape := [nx, ny],
                  nd_data := concat (map (\<lambda>i. map (\<lambda>j. nd_data data ! ((i * ny + j) * nz + m))
                                                [0..<ny]) [0..<nx])\<rparr>)
      | _ \<Rightarrow> data)"

text \<open>The body of the loop of \<open>write_tiff_stack\<close> for one position \<open>m\<close>. The name that
  \<open>_add_index_to_string\<close> returns is concatenated with the extension, a TypeError when it
  is \<open>None\<close>. The selection \<open>dtype is 'uint8'\<close> is read as equality of strings; any other
  dtype string saves the plane as it is.\<close>

definition write_plane ::
  "rounding \<Rightarrow> filesystem \<Rightarrow> ndarray \<Rightarrow> string \<Rightarrow> int \<Rightarrow> int list \<Rightarrow> nat \<Rightarrow> bool \<Rightarrow> string
     \<Rightarrow> bound \<Rightarrow> bound \<Rightarrow> nat \<Rightarrow> (error + filesystem) option" where
  "write_plane fl fs data fname axis ind digit overwrite dtype dmin dmax m =
     (case add_index_to_string fname (ind ! m) digit of
        None \<Rightarrow> Some (Inl TypeError)
      | Some string \<Rightarrow>
          (case (if \<not> overwrite \<and> isfile fs (string @ ''.tiff'')
                 then suggest_new_fname fs (string @ ''.tiff'')
                 else Some (Inr (string @ ''.tiff''))) of
             None \<Rightarrow> None
           | Some (Inl e) \<Rightarrow> Some (Inl e)
           | Some (Inr new_fname) \<Rightarrow>
               (case (if dtype = ''uint8'' then as_uint8 fl (Ndarray (plane data axis m)) (Some dmin) (Some dmax)
                      else if dtype = ''uint16'' then as_uint16 fl (Ndarray (plane data axis m)) (Some dmin) (Some dmax)
                      else if dtype = ''float32'' then
                        (case as_float32_obj (Ndarray (plane data axis m)) of
                           None \<Rightarrow> Inr (Ndarray (plane data axis m))
                         | Some new \<Rightarrow> Inr new)
                      else Inr (Ndarray (plane data axis m))) of
                  Inl e \<Rightarrow> Some (Inl e)
                | Inr arr \<Rightarrow> Some (Inr (imsave fs new_fname arr)))))"

fun write_planes ::
  "rounding \<Rightarrow> filesystem \<Rightarrow> ndarray \<Rightarrow> string \<Rightarrow> int \<Rightarrow> int list \<Rightarrow> nat \<Rightarrow> bool \<Rightarrow> string
     \<Rightarrow> bound \<Rightarrow> bound \<Rightarrow> nat list \<Rightarrow> (error + filesystem) option" where
  "write_planes fl fs data fname axis ind digit overwrite dtype dmin dmax [] = Some (Inr fs)"
| "write_planes fl fs data fname axis ind digit overwrite dtype dmin dmax (m # ms) =
     (case write_plane fl fs data fname axis ind digit overwrite dtype dmin dmax m of
        None \<Rightarrow> None
      | Some (Inl e) \<Rightarrow> Some (Inl e)
      | Some (Inr fs1) \<Rightarrow> write_planes fl fs1 data fname axis ind digit overwrite dtype dmin dmax ms)"

text \<open>\<open>data.shape\<close> of an object; a scalar has the empty shape.\<close>

fun obj_shape :: "pyobj \<Rightarrow> nat list" where
  "obj_shape (Ndarray a) = nd_shape a"
| "obj_shape (NpScalar t v) = []"

text \<open>The part of \<open>write_tiff_stack\<close> after the clipping, on the clipped object:
  \<open>nx, ny, nz = data.shape\<close> raises ValueError for an array that is not
  three-dimensional, and \<open>end_id\<close> is unbound for an axis other than 0, 1 and 2.\<close>

definition write_stack_files ::
  "rounding \<Rightarrow> filesystem \<Rightarrow> pyobj \<Rightarrow> string \<Rightarrow> int \<Rightarrow> int \<Rightarrow> nat \<Rightarrow> bool \<Rightarrow> string
     \<Rightarrow> bound \<Rightarrow> bound \<Rightarrow> (error + filesystem) option" where
  "write_stack_files fl fs data fname axis ident digit overwrite dtype dmin dmax =
     (let dir_path = dirname fname;
          fs1 = (if \<not> path_exists fs dir_path then makedirs fs dir_path else fs)
      in case obj_shape data of
           [nx, ny, nz] \<Rightarrow>
             (if axis = 0 \<or> axis = 1 \<or> axis = 2 then
                (let end_id = (if axis = 0 then ident + int nx
                               else if axis = 1 then ident + int ny
                               else ident + int nz);
                     ind = [ident .. end_id - 1]
                 in write_planes fl fs1 (obj_array data) fname axis ind digit overwrite dtype dmin dmax
                      [0..<length ind])
              else Some (Inl UnboundLocalError))
         | _ \<Rightarrow> Some (Inl ValueError))"

text \<open>\<open>write_tiff_stack\<close>. \<open>data\<close> is a reference into the heap \<open>h\<close>: the masked stores
  change the caller's array. The result is the heap after the call together with the
  file system or the exception; \<open>None\<close> is a call that does not return. \<open>ident\<close> is the
  parameter \<open>id\<close>.\<close>

definition write_tiff_stack ::
  "rounding \<Rightarrow> pyobj list \<Rightarrow> filesystem \<Rightarrow> nat \<Rightarrow> string \<Rightarrow> int \<Rightarrow> int \<Rightarrow> nat \<Rightarrow> bool \<Rightarrow> string
     \<Rightarrow> bound option \<Rightarrow> bound option \<Rightarrow> (pyobj list \<times> (error + filesystem)) option" where
  "write_tiff_stack fl h fs data fname axis ident digit overwrite dtype dmin dmax =
     (case (case dmax of None \<Rightarrow> map_sum id (NpVal (obj_dtype (h ! data))) (np_max (h ! data))
                       | Some v \<Rightarrow> Inr v) of
        Inl e \<Rightarrow> Some (h, Inl e)
      | Inr dmax1 \<Rightarrow>
     (case (case dmin of None \<Rightarrow> map_sum id (NpVal (obj_dtype (h ! data))) (np_min (h ! data))
                       | Some v \<Rightarrow> Inr v) of
        Inl e \<Rightarrow> Some (h, Inl e)
      | Inr dmin1 \<Rightarrow>
     (case np_max (h ! data) of
        Inl e \<Rightarrow> Some (h, Inl e)
      | Inr mx \<Rightarrow>
     (case (if bound_val dmax1 < mx
            then store_where (\<lambda>x. x > compare_value fl (obj_dtype (h ! data)) dmax1)
                   (store_value fl (obj_dtype (h ! data)) dmax1) (h ! data)
            else Inr (h ! data)) of
        Inl e \<Rightarrow> Some (h, Inl e)
      | Inr data1 \<Rightarrow>
     (case np_min data1 of
        Inl e \<Rightarrow> Some (h[data := data1], Inl e)
      | Inr mn \<Rightarrow>
     (case (if bound_val dmin1 > mn
            then store_where (\<lambda>x. x < compare_value fl (obj_dtype data1) dmin1)
                   (store_value fl (obj_dtype data1) dmin1) data1
            else Inr data1) of
        Inl e \<Rightarrow> Some (h[data := data1], Inl e)
      | Inr data2 \<Rightarrow>
     (case write_stack_files fl fs data2 (abspath fs fname) axis ident digit overwrite dtype dmin1 dmax1 of
        None \<Rightarrow> None
      | Some r \<Rightarrow> Some (h[data := data2], r))))))))"

section \<open>Written stacks\<close>

text \<open>The naming convention of a stack with digit width 5: the base, an underscore, the
  index left-padded with zeros, and the extension \<open>.tiff\<close>.\<close>

definition stack_file :: "string \<Rightarrow> int \<Rightarrow> string" where
  "stack_file base i = base @ ''_'' @ pad_zeros 5 (str_int i) @ ''.tiff''"

text \<open>The file system after the planes \<open>ms\<close> along axis 0 of a volume have been saved as
  float32 images under the names of the convention, starting at index \<open>ident\<close>.\<close>

definition saved_stack :: "filesystem \<Rightarrow> string \<Rightarrow> int \<Rightarrow> ndarray \<Rightarrow> nat list \<Rightarrow> filesystem" where
  "saved_stack fs base ident a ms =
     foldl (\<lambda>f m. imsave f (stack_file base (ident + int m)) (np_array_float32 (Ndarray (plane a 0 m))))
       fs ms"

text \<open>The buffer of the reader after \<open>k\<close> slices of the elements \<open>xs\<close> have been stored:
  the first \<open>k\<close> slices, then zeros.\<close>

definition partial_stack :: "nat \<Rightarrow> nat \<Rightarrow> nat \<Rightarrow> rat list \<Rightarrow> nat \<Rightarrow> ndarray" where
  "partial_stack nx ny nz xs k =
     \<lparr>nd_dtype = Float32, nd_shape = [nx, ny, nz],
      nd_data = take (k * (ny * nz)) xs @ replicate ((nx - k) * (ny * nz)) 0\<rparr>"

section \<open>Facts about the decimal rendering\<close>

lemma str_nat_nonempty: "str_nat n \<noteq> []"
  by (subst str_nat.simps) simp

lemma str_nat_small: "n < 10 \<Longrightarrow> str_nat n = [digit_char n]"
  by (subst str_nat.simps) simp

lemma str_nat_big: "10 \<le> n \<Longrightarrow> str_nat n = str_nat (n div 10) @ [digit_char (n mod 10)]"
  by (subst str_nat.simps) simp

lemma str_nat_upper: "n < 10 ^ length (str_nat n)"
proof (induction n rule: str_nat.induct)
  case (1 n)
  show ?case
  proof (cases "n < 10")
    case True
    then show ?thesis by (simp add: str_nat_small)
  next
    case False
    with 1 have "n div 10 < 10 ^ length (str_nat (n div 10))" by simp
    then have "n < 10 * 10 ^ length (str_nat (n div 10))" by simp
    with False show ?thesis by (simp add: str_nat_big)
  qed
qed

lemma str_nat_lower: "10 \<le> n \<Longrightarrow> 10 ^ (length (str_nat n) - 1) \<le> n"
proof (induction n rule: str_nat.induct)
  case (1 n)
  then have big: "10 \<le> n" by simp
  show ?case
  proof (cases "n div 10 < 10")
    case True
    with big show ?thesis by (simp add: str_nat_big str_nat_small)
  next
    case False
    with 1 big have "10 ^ (length (str_nat (n div 10)) - 1) \<le> n div 10" by simp
    moreover have "length (str_nat (n div 10)) \<ge> 1"
      using str_nat_nonempty [of "n div 10"] by (cases "str_nat (n div 10)") auto
    ultimately have "10 ^ length (str_nat (n div 10)) \<le> 10 * (n div 10)"
      by (cases "length (str_nat (n div 10))") auto
    also have "\<dots> \<le> n" by simp
    finally show ?thesis using big by (simp add: str_nat_big)
  qed
qed


section \<open>The filename indexer: results\<close>


lemma int64_wrap_id: "- (2 ^ 63) \<le> x \<Longrightarrow> x < 2 ^ 63 \<Longrightarrow> int64_wrap x = x"
  unfolding int64_wrap_def by (simp add: mod_pos_pos_trivial)

lemma int64_wrap_le: "0 \<le> x \<Longrightarrow> int64_wrap x \<le> x"
proof -
  assume "0 \<le> x"
  then have "(x + 2 ^ 63) mod 2 ^ 64 \<le> x + 2 ^ 63"
    by (intro zmod_le_nonneg_dividend) simp
  then show ?thesis unfolding int64_wrap_def by simp
qed

lemma np_power_10_small: "k \<le> 18 \<Longrightarrow> np_power 10 k = 10 ^ k"
proof -
  assume k: "k \<le> 18"
  have "(10::int) ^ k \<le> 10 ^ 18" using k by (intro power_increasing) simp_all
  then have "(10::int) ^ k < 2 ^ 63" by simp
  moreover have "- (2 ^ 63) \<le> (10::int) ^ k"
    by (rule order_trans [of _ 0]) simp_all
  ultimately show ?thesis unfolding np_power_def by (rule int64_wrap_id [rotated])
qed

lemma np_power_10_le: "np_power 10 k \<le> 10 ^ k"
  unfolding np_power_def by (rule int64_wrap_le) simp

lemma add_index_loop_none:
  "\<forall>n \<in> set ns. \<not> ind < np_power 10 (n + 1) \<Longrightarrow> add_index_loop s ind si ns = None"
  by (induction ns) auto

lemma add_index_loop_hit:
  "a \<le> m \<Longrightarrow> m < d \<Longrightarrow> \<forall>n. a \<le> n \<and> n < m \<longrightarrow> \<not> ind < np_power 10 (n + 1) \<Longrightarrow>
   ind < np_power 10 (m + 1) \<Longrightarrow>
   add_index_loop s ind si [a..<d] = Some (s @ ''_'' @ si ! m @ str_int ind)"
proof (induction "m - a" arbitrary: a)
  case 0
  then have "a = m" by simp
  with 0 show ?case by (simp add: upt_rec [of m d])
next
  case (Suc k)
  then have lt: "a < m" by simp
  with Suc.prems have miss: "\<not> ind < np_power 10 (a + 1)" by simp
  have "add_index_loop s ind si [Suc a..<d] = Some (s @ ''_'' @ si ! m @ str_int ind)"
    using Suc.hyps(2) Suc.prems lt by (intro Suc.hyps(1)) auto
  with miss lt Suc.prems(2) show ?case by (simp add: upt_rec [of a d])
qed

lemma string_index_nth: "m < digit \<Longrightarrow> string_index_of digit ! m = replicate (digit - m - 1) CHR ''0''"
  by (simp add: string_index_of_def)

lemma add_index_padded:
  assumes d: "digit \<le> 18" and d1: "1 \<le> digit" and lo: "0 \<le> ind" and hi: "ind < 10 ^ digit"
  shows "add_index_to_string base ind digit = Some (base @ ''_'' @ pad_zeros digit (str_int ind))"
proof -
  define k where "k = nat ind"
  define L where "L = length (str_nat k)"
  have ind: "ind = int k" using lo by (simp add: k_def)
  have str: "str_int ind = str_nat k" using lo by (simp add: str_int_def k_def)
  have L1: "1 \<le> L" using str_nat_nonempty [of k] by (cases "str_nat k") (auto simp: L_def)
  have kd: "k < 10 ^ digit" using hi ind
    by (metis of_nat_less_iff of_nat_numeral of_nat_power)
  have Ld: "L \<le> digit"
  proof (rule ccontr)
    assume "\<not> L \<le> digit"
    then have dl: "digit \<le> L - 1" and "10 \<le> k \<or> k < 10" by auto
    show False
    proof (cases "10 \<le> k")
      case True
      then have "10 ^ (L - 1) \<le> k" unfolding L_def by (rule str_nat_lower)
      moreover have "(10::nat) ^ digit \<le> 10 ^ (L - 1)" using dl by (intro power_increasing) simp_all
      ultimately show False using kd by linarith
    next
      case False
      then have "L = 1" by (simp add: L_def str_nat_small)
      with \<open>\<not> L \<le> digit\<close> d1 show False by simp
    qed
  qed
  have up: "ind < np_power 10 ((L - 1) + 1)"
  proof -
    have "k < 10 ^ L" unfolding L_def by (rule str_nat_upper)
    then have "ind < 10 ^ L" using ind by (metis of_nat_less_iff of_nat_numeral of_nat_power)
    moreover have "np_power 10 L = 10 ^ L" using Ld d by (intro np_power_10_small) simp
    ultimately show ?thesis using L1 by simp
  qed
  have low: "\<forall>n. 0 \<le> n \<and> n < L - 1 \<longrightarrow> \<not> ind < np_power 10 (n + 1)"
  proof (intro allI impI)
    fix n assume n: "0 \<le> n \<and> n < L - 1"
    then have L2: "2 \<le> L" by simp
    have "10 \<le> k"
    proof (rule ccontr)
      assume "\<not> 10 \<le> k"
      then have "L = 1" by (simp add: L_def str_nat_small)
      with L2 show False by simp
    qed
    then have "10 ^ (L - 1) \<le> k" unfolding L_def by (rule str_nat_lower)
    moreover have "(10::nat) ^ (n + 1) \<le> 10 ^ (L - 1)" using n by (intro power_increasing) simp_all
    ultimately have "(10::nat) ^ (n + 1) \<le> k" by simp
    then have "(10::int) ^ (n + 1) \<le> ind" using ind
      by (metis of_nat_le_iff of_nat_numeral of_nat_power)
    moreover have "np_power 10 (n + 1) = 10 ^ (n + 1)" using n Ld d by (intro np_power_10_small) simp
    ultimately show "\<not> ind < np_power 10 (n + 1)" by simp
  qed
  have "add_index_loop base ind (string_index_of digit) [0..<digit]
        = Some (base @ ''_'' @ string_index_of digit ! (L - 1) @ str_int ind)"
    using L1 Ld low up by (intro add_index_loop_hit) auto
  moreover have "string_index_of digit ! (L - 1) = replicate (digit - L) CHR ''0''"
    using L1 Ld by (simp add: string_index_nth)
  ultimately show ?thesis
    by (simp add: add_index_to_string_def pad_zeros_def str L_def)
qed

lemma str_int_134: "str_int 134 = ''134''"
  by (simp add: str_int_def str_nat.simps digit_char_def)

lemma str_int_99999: "str_int 99999 = ''99999''"
  by (simp add: str_int_def str_nat.simps digit_char_def)

lemma str_int_7: "str_int 7 = ''7''"
  by (simp add: str_int_def str_nat.simps digit_char_def)

lemma replicate_two: "replicate 2 x = [x, x]"
  by (simp add: numeral_2_eq_2)

lemma replicate_four: "replicate 4 x = [x, x, x, x]"
  by (simp add: eval_nat_numeral)

text \<open>Claim C3: with digit width 5 and any base string, index 134 gives the suffix
  \<open>_00134\<close> and index 99999 the suffix \<open>_99999\<close>; for an index from 0 to 99999 the result
  is the base, an underscore and the decimal index left-padded with zeros to width 5.\<close>

theorem add_index_width5:
  "add_index_to_string base 134 5 = Some (base @ ''_00134'') \<and>
   add_index_to_string base 99999 5 = Some (base @ ''_99999'') \<and>
   (\<forall>ind. 0 \<le> ind \<and> ind < 100000 \<longrightarrow>
      add_index_to_string base ind 5 = Some (base @ ''_'' @ pad_zeros 5 (str_int ind)))"
proof (intro conjI allI impI)
  show "add_index_to_string base 134 5 = Some (base @ ''_00134'')"
    using add_index_padded [of 5 134 base]
    by (simp add: str_int_134 pad_zeros_def replicate_two)
  show "add_index_to_string base 99999 5 = Some (base @ ''_99999'')"
    using add_index_padded [of 5 99999 base]
    by (simp add: str_int_99999 pad_zeros_def)
  fix ind :: int
  assume "0 \<le> ind \<and> ind < 100000"
  then show "add_index_to_string base ind 5 = Some (base @ ''_'' @ pad_zeros 5 (str_int ind))"
    using add_index_padded [of 5 ind base] by simp
qed

theorem add_index_width5_witness:
  "(0::int) \<le> 7 \<and> (7::int) < 100000 \<and> add_index_to_string ''mydata'' 7 5 = Some ''mydata_00007''"
  using add_index_width5 [of "''mydata''"]
  by (simp add: str_int_7 pad_zeros_def replicate_four)

text \<open>Claim C10: for a digit width \<open>d >= 1\<close> and an index \<open>ind >= 10^d\<close> the indexer
  returns no string (Python's \<open>None\<close>), also where \<open>np.power\<close> has wrapped around; the
  loop body of \<open>write_tiff_stack\<close>, which concatenates the result with the extension,
  then fails with a TypeError.\<close>

theorem add_index_overflow_none:
  assumes "1 \<le> d" and big: "10 ^ d \<le> ind"
  shows "add_index_to_string base ind d = None
    \<and> (idx ! m = ind \<longrightarrow>
         write_plane fl fs data base axis idx d overwrite dtype dmin dmax m = Some (Inl TypeError))"
proof -
  have "\<forall>n \<in> set [0..<d]. \<not> ind < np_power 10 (n + 1)"
  proof
    fix n assume "n \<in> set [0..<d]"
    then have "n + 1 \<le> d" by simp
    then have "(10::int) ^ (n + 1) \<le> 10 ^ d" by (intro power_increasing) simp_all
    with np_power_10_le [of "n + 1"] big show "\<not> ind < np_power 10 (n + 1)" by linarith
  qed
  then have none: "add_index_to_string base ind d = None"
    unfolding add_index_to_string_def by (rule add_index_loop_none)
  then show ?thesis by (simp add: write_plane_def)
qed

theorem add_index_overflow_none_witness:
  "(1::nat) \<le> 5 \<and> (10::int) ^ 5 \<le> 100000 \<and> [100000::int] ! 0 = 100000
   \<and> add_index_to_string ''mydata'' 100000 5 = None
   \<and> write_plane (\<lambda>t x. x) \<lparr>fs_cwd = ''home/u'', fs_files = [], fs_dirs = []\<rparr>
         \<lparr>nd_dtype = Float32, nd_shape = [1, 1, 2], nd_data = [3, 4]\<rparr>
         ''mydata'' 0 [100000] 5 False ''uint8'' (PyFloat 3) (PyFloat 4) 0 = Some (Inl TypeError)"
  using add_index_overflow_none [of 5 100000 "''mydata''" "[100000]" 0 "\<lambda>t x. x"
      "\<lparr>fs_cwd = ''home/u'', fs_files = [], fs_dirs = []\<rparr>"
      "\<lparr>nd_dtype = Float32, nd_shape = [1, 1, 2], nd_data = [3, 4]\<rparr>" 0 False "''uint8''" "PyFloat 3" "PyFloat 4"]
  by simp

section \<open>The float32 normalizer\<close>


lemma as_float32_ndarray:
  "h ! r = Ndarray a \<Longrightarrow>
   as_float32 h r = (length h, h @ [Ndarray \<lparr>nd_dtype = Float32, nd_shape = nd_shape a, nd_data = nd_data a\<rparr>])"
  by (simp add: as_float32_def as_float32_obj_def)

lemma as_float32_scalar:
  "h ! r = NpScalar Float32 v \<Longrightarrow> as_float32 h r = (r, h)"
  by (simp add: as_float32_def as_float32_obj_def)

text \<open>Claim C8 is about \<open>as_float32\<close> on an array that is float32 already: the object
  itself should come back. The call on the heap with the single float32 array \<open>[1, 2]\<close>
  returns the reference 1 to a new array and leaves a second object on the heap: the
  \<open>isinstance\<close> test fails for every array and \<open>np.array\<close> copies.\<close>

theorem as_float32_copies_float32_array:
  "as_float32 [Ndarray \<lparr>nd_dtype = Float32, nd_shape = [2], nd_data = [1, 2]\<rparr>] 0
     = (1, [Ndarray \<lparr>nd_dtype = Float32, nd_shape = [2], nd_data = [1, 2]\<rparr>,
            Ndarray \<lparr>nd_dtype = Float32, nd_shape = [2], nd_data = [1, 2]\<rparr>])"
  by (simp add: as_float32_def as_float32_obj_def)

section \<open>Decimal numerals are distinct\<close>

lemma digit_char_inj: "a < 10 \<Longrightarrow> b < 10 \<Longrightarrow> digit_char a = digit_char b \<Longrightarrow> a = b"
proof -
  assume a: "a < 10" and b: "b < 10" and eq: "digit_char a = digit_char b"
  have d: "distinct ''0123456789''" by simp
  have "a < length ''0123456789''" "b < length ''0123456789''" using a b by simp_all
  with d eq show "a = b" unfolding digit_char_def by (simp only: nth_eq_iff_index_eq)
qed

lemma str_nat_length_one: "length (str_nat n) = Suc 0 \<longleftrightarrow> n < 10"
proof
  assume l: "length (str_nat n) = Suc 0"
  show "n < 10"
  proof (rule ccontr)
    assume "\<not> n < 10"
    then have "str_nat n = str_nat (n div 10) @ [digit_char (n mod 10)]" by (simp add: str_nat_big)
    with l have "str_nat (n div 10) = []" by simp
    then show False by (simp add: str_nat_nonempty)
  qed
next
  assume "n < 10" then show "length (str_nat n) = Suc 0" by (simp add: str_nat_small)
qed

lemma str_nat_inj: "str_nat n = str_nat m \<Longrightarrow> n = m"
proof (induction n arbitrary: m rule: str_nat.induct)
  case (1 n)
  show ?case
  proof (cases "n < 10")
    case True
    then have "length (str_nat m) = Suc 0" using 1(2) [symmetric] by (simp add: str_nat_small)
    then have m: "m < 10" by (simp add: str_nat_length_one)
    with True 1(2) show ?thesis by (simp add: str_nat_small digit_char_inj)
  next
    case False
    then have "length (str_nat n) \<noteq> Suc 0" by (simp add: str_nat_length_one)
    then have m: "\<not> m < 10" using 1(2) by (simp add: str_nat_length_one)
    from False m 1(2) have eq: "str_nat (n div 10) @ [digit_char (n mod 10)]
        = str_nat (m div 10) @ [digit_char (m mod 10)]" by (simp add: str_nat_big)
    then have "str_nat (n div 10) = str_nat (m div 10)" by simp
    with False 1(1) have q: "n div 10 = m div 10" by blast
    from eq have "digit_char (n mod 10) = digit_char (m mod 10)" by simp
    then have r: "n mod 10 = m mod 10" by (intro digit_char_inj) simp_all
    from q r show ?thesis by (metis div_mult_mod_eq)
  qed
qed

lemma str_nat_1: "str_nat 1 = ''1''" by (simp add: str_nat.simps digit_char_def)
lemma str_nat_2: "str_nat 2 = ''2''" by (simp add: str_nat.simps digit_char_def)

section \<open>The collision-avoidance loop\<close>

lemma isfile_iff: "isfile fs p \<longleftrightarrow> abspath fs p \<in> fst ` set (fs_files fs)"
proof -
  have "(map_of (fs_files fs) (abspath fs p) = None) = (abspath fs p \<notin> fst ` set (fs_files fs))"
    by (rule map_of_eq_None_iff)
  then show ?thesis unfolding isfile_def lookup_file_def by fast
qed

lemma suggest_loop_first:
  "k \<le> N \<Longrightarrow> \<forall>n. k \<le> n \<and> n < N \<longrightarrow> isfile fs (b @ ''-'' @ str_nat n @ e) \<Longrightarrow>
   \<not> isfile fs (b @ ''-'' @ str_nat N @ e) \<Longrightarrow>
   suggest_loop fs b e k = Some (b @ ''-'' @ str_nat N)"
proof (induction "N - k" arbitrary: k)
  case 0
  then have kN: "k = N" by simp
  have "suggest_loop fs b e N = Some (b @ ''-'' @ str_nat N)"
    using 0(4) by (subst suggest_loop.simps) (simp del: suggest_loop.simps)
  with kN show ?case by (simp only:)
next
  case (Suc d)
  then have lt: "k < N" by simp
  with Suc.prems have ex: "isfile fs (b @ ''-'' @ str_nat k @ e)" by simp
  have "suggest_loop fs b e (k + 1) = Some (b @ ''-'' @ str_nat N)"
    using Suc.hyps(2) Suc.prems lt by (intro Suc.hyps(1)) auto
  with ex show ?case by (subst suggest_loop.simps) (simp del: suggest_loop.simps)
qed

lemma abspath_cand_inj:
  "abspath fs (b @ ''-'' @ s @ e) = abspath fs (b @ ''-'' @ t @ e) \<Longrightarrow> s = t"
  by (cases b) (simp_all add: abspath_def split: if_splits)

lemma free_candidate:
  "\<exists>N \<ge> k. \<not> isfile fs (b @ ''-'' @ str_nat N @ e)"
proof (rule ccontr)
  assume "\<not> (\<exists>N \<ge> k. \<not> isfile fs (b @ ''-'' @ str_nat N @ e))"
  then have all: "\<forall>N \<ge> k. abspath fs (b @ ''-'' @ str_nat N @ e) \<in> fst ` set (fs_files fs)"
    unfolding isfile_iff by blast
  define f where "f = (\<lambda>N. abspath fs (b @ ''-'' @ str_nat N @ e))"
  have "f ` {k..} \<subseteq> fst ` set (fs_files fs)" using all unfolding f_def by blast
  then have "finite (f ` {k..})" by (rule finite_subset) simp
  moreover have "inj_on f {k..}"
  proof (rule inj_onI)
    fix x y assume "f x = f y"
    then have "str_nat x = str_nat y" unfolding f_def by (rule abspath_cand_inj)
    then show "x = y" by (rule str_nat_inj)
  qed
  ultimately have "finite {k..}" by (rule finite_imageD)
  then show False by (simp add: infinite_Ici)
qed

lemma suggest_loop_total:
  "\<exists>N \<ge> k. suggest_loop fs b e k = Some (b @ ''-'' @ str_nat N) \<and> \<not> isfile fs (b @ ''-'' @ str_nat N @ e)"
proof -
  define P where "P = (\<lambda>N. k \<le> N \<and> \<not> isfile fs (b @ ''-'' @ str_nat N @ e))"
  have "\<exists>N. P N" using free_candidate [of k fs b e] unfolding P_def by blast
  then have least: "P (LEAST N. P N)" by (rule LeastI_ex)
  define M where "M = (LEAST N. P N)"
  have PM: "k \<le> M" "\<not> isfile fs (b @ ''-'' @ str_nat M @ e)"
    using least unfolding M_def P_def by blast+
  have below: "\<forall>n. k \<le> n \<and> n < M \<longrightarrow> isfile fs (b @ ''-'' @ str_nat n @ e)"
  proof (intro allI impI)
    fix n assume n: "k \<le> n \<and> n < M"
    then have "\<not> P n" unfolding M_def by (meson not_less_Least)
    with n show "isfile fs (b @ ''-'' @ str_nat n @ e)" unfolding P_def by blast
  qed
  have "suggest_loop fs b e k = Some (b @ ''-'' @ str_nat M)"
    using PM(1) below PM(2) by (rule suggest_loop_first)
  with PM show ?thesis by blast
qed

section \<open>Splitting a name at its dots\<close>

lemma split_dot_nonempty: "split_dot s \<noteq> []"
  by (induction s) (auto split: list.splits)

lemma split_dot_no_dot: "CHR ''.'' \<notin> set s \<Longrightarrow> split_dot s = [s]"
  by (induction s) auto

lemma split_dot_prefix:
  "CHR ''.'' \<notin> set b \<Longrightarrow> split_dot (b @ CHR ''.'' # rest) = b # split_dot rest"
  by (induction b) (auto split: list.splits simp: split_dot_nonempty)

lemma split_dot_length_append:
  "2 \<le> length (split_dot (s @ CHR ''.'' # rest))"
proof (induction s)
  case Nil
  then show ?case using split_dot_nonempty [of rest] by (cases "split_dot rest") simp_all
next
  case (Cons c s)
  obtain w ws where ws: "split_dot (s @ CHR ''.'' # rest) = w # ws"
    using split_dot_nonempty [of "s @ CHR ''.'' # rest"] by (cases "split_dot (s @ CHR ''.'' # rest)") simp_all
  with Cons show ?case by simp
qed


section \<open>Files\<close>

lemma abspath_write_file [simp]: "abspath (write_file fs q f) p = abspath fs p"
  by (simp add: abspath_def write_file_def getcwd_def)

lemma abspath_idem [simp]: "abspath fs (abspath fs p) = abspath fs p"
  by (simp add: abspath_def getcwd_def)

lemma lookup_write_file:
  "lookup_file (write_file fs q f) p = (if abspath fs p = abspath fs q then Some f else lookup_file fs p)"
  by (simp add: lookup_file_def abspath_def write_file_def getcwd_def)

lemma abspath_append: "p \<noteq> [] \<Longrightarrow> abspath fs (p @ s) = abspath fs p @ s"
  by (cases p) (simp_all add: abspath_def)

section \<open>The HDF5 writer\<close>

lemma data_name_not_marker: "gname @ ''/data'' \<noteq> ''implements''"
proof
  assume "gname @ ''/data'' = ''implements''"
  then have "last (gname @ ''/data'') = last ''implements''" by (rule arg_cong)
  then show False by simp
qed

lemma h5_create_layout:
  assumes "gname \<noteq> []" and "gname \<noteq> ''implements''"
  shows "(case h5_create [] ''implements'' (H5String ''exchange'') of
            Inl e \<Rightarrow> Inl e
          | Inr f1 \<Rightarrow>
         (case h5_create f1 gname H5Group of
            Inl e \<Rightarrow> Inl e
          | Inr f2 \<Rightarrow>
         (case h5_create f2 (gname @ ''/data'') (H5Dataset data) of
            Inl e \<Rightarrow> Inl e
          | Inr f3 \<Rightarrow> Inr (write_file fs name (Hdf5File f3)))))
         = Inr (write_file fs name (Hdf5File (h5_layout gname data)))"
  using assms data_name_not_marker [of gname]
  by (simp add: h5_create_def h5_layout_def)

lemma h5_layout_data:
  assumes "gname \<noteq> ''implements''"
  shows "map_of (h5_layout gname data) (gname @ ''/data'') = Some (H5Dataset data)"
  using assms data_name_not_marker [of gname] by (simp add: h5_layout_def)

lemma suggest_new_fname_h5_total:
  "\<exists>name. suggest_new_fname fs (fname @ ''.h5'') = Some (Inr name)"
proof -
  define parts where "parts = split_dot (fname @ ''.h5'')"
  have len: "2 \<le> length parts"
    using split_dot_length_append [of fname "''h5''"] by (simp add: parts_def)
  obtain N where "suggest_loop fs (parts ! (length parts - 2)) (''.'' @ last parts) 1
      = Some ((parts ! (length parts - 2)) @ ''-'' @ str_nat N)"
    using suggest_loop_total [of 1 fs "parts ! (length parts - 2)" "''.'' @ last parts"] by blast
  then show ?thesis
    using len unfolding suggest_new_fname_def parts_def [symmetric] Let_def by simp
qed

lemma suggest_new_fname_simple:
  assumes nodot: "CHR ''.'' \<notin> set base" "CHR ''.'' \<notin> set ext"
    and N: "1 \<le> N" "\<forall>n. 1 \<le> n \<and> n < N \<longrightarrow> isfile fs (base @ ''-'' @ str_nat n @ ''.'' @ ext)"
      "\<not> isfile fs (base @ ''-'' @ str_nat N @ ''.'' @ ext)"
  shows "suggest_new_fname fs (base @ ''.'' @ ext) = Some (Inr (base @ ''-'' @ str_nat N @ ''.'' @ ext))"
proof -
  have parts: "split_dot (base @ ''.'' @ ext) = [base, ext]"
    using nodot by (simp add: split_dot_prefix split_dot_no_dot)
  have "suggest_loop fs base (''.'' @ ext) 1 = Some (base @ ''-'' @ str_nat N)"
    using N by (rule suggest_loop_first)
  then show ?thesis
    unfolding suggest_new_fname_def parts Let_def by simp
qed

lemma write_hdf5_first_free:
  assumes nodot: "CHR ''.'' \<notin> set base"
    and ex: "isfile fs (base @ ''.h5'')"
    and N: "1 \<le> N" "\<forall>n. 1 \<le> n \<and> n < N \<longrightarrow> isfile fs (base @ ''-'' @ str_nat n @ ''.h5'')"
      "\<not> isfile fs (base @ ''-'' @ str_nat N @ ''.h5'')"
    and g: "gname \<noteq> []" "gname \<noteq> ''implements''"
  shows "write_hdf5 fs data base gname False =
     Some (Inr (write_file fs (base @ ''-'' @ str_nat N @ ''.h5'') (Hdf5File (h5_layout gname data))))"
proof -
  have "suggest_new_fname fs (base @ ''.'' @ ''h5'') = Some (Inr (base @ ''-'' @ str_nat N @ ''.'' @ ''h5''))"
    using nodot N by (intro suggest_new_fname_simple) simp_all
  then have s: "suggest_new_fname fs (base @ ''.h5'') = Some (Inr (base @ ''-'' @ str_nat N @ ''.h5''))"
    by simp
  show ?thesis
    unfolding write_hdf5_def Let_def using ex s h5_create_layout [OF g] by simp
qed



section \<open>Slicing with full ranges\<close>

lemma concat_chunks:
  "length xs = n * p \<Longrightarrow> concat (map (\<lambda>i. take p (drop (i * p) xs)) [0..<n]) = xs"
proof (induction n arbitrary: xs)
  case 0
  then show ?case by simp
next
  case (Suc n)
  have len: "length (drop p xs) = n * p" using Suc.prems by simp
  have "concat (map (\<lambda>i. take p (drop (i * p) xs)) [0..<Suc n])
      = take p xs @ concat (map (\<lambda>i. take p (drop (Suc i * p) xs)) [0..<n])"
    by (simp only: upt_conv_Cons [of 0 "Suc n"] map_Suc_upt [symmetric] list.map concat.simps)
       (simp add: comp_def)
  also have "(\<lambda>i. take p (drop (Suc i * p) xs)) = (\<lambda>i. take p (drop (i * p) (drop p xs)))"
    by (simp add: add.commute)
  also have "concat (map (\<lambda>i. take p (drop (i * p) (drop p xs))) [0..<n]) = drop p xs"
    using len by (rule Suc.IH)
  finally show ?case by simp
qed

lemma chunk_length:
  "length xs = n * p \<Longrightarrow> i < n \<Longrightarrow> length (take p (drop (i * p) xs)) = p"
proof -
  assume l: "length xs = n * p" and i: "i < n"
  then have "Suc i * p \<le> n * p" by (intro mult_le_mono1) simp
  then have "i * p + p \<le> length xs" using l by simp
  then show ?thesis by simp
qed

lemma slice_nd_full:
  "length xs = prod_list shape \<Longrightarrow> slice_nd shape (map (\<lambda>n. (0, n)) shape) xs = xs"
proof (induction shape arbitrary: xs)
  case Nil
  then show ?case by simp
next
  case (Cons n shape)
  define p where "p = prod_list shape"
  have len: "length xs = n * p" using Cons.prems by (simp add: p_def)
  have eqmap: "map (\<lambda>i. slice_nd shape (map (\<lambda>n. (0, n)) shape) (take p (drop (i * p) xs))) [0..<n]
      = map (\<lambda>i. take p (drop (i * p) xs)) [0..<n]"
  proof (rule map_cong [OF refl])
    fix i assume "i \<in> set [0..<n]"
    then have "i < n" by simp
    with len have "length (take p (drop (i * p) xs)) = prod_list shape"
      unfolding p_def [symmetric] by (rule chunk_length)
    then show "slice_nd shape (map (\<lambda>n. (0, n)) shape) (take p (drop (i * p) xs)) = take p (drop (i * p) xs)"
      by (rule Cons.IH)
  qed
  have "slice_nd (n # shape) (map (\<lambda>n. (0, n)) (n # shape)) xs
      = concat (map (\<lambda>i. slice_nd shape (map (\<lambda>n. (0, n)) shape) (take p (drop (i * p) xs))) [0..<n])"
    by (simp add: p_def)
  also have "\<dots> = concat (map (\<lambda>i. take p (drop (i * p) xs)) [0..<n])"
    by (simp only: eqmap)
  also have "\<dots> = xs" using len by (rule concat_chunks)
  finally show ?case .
qed

lemma slice_array_default_3d:
  assumes sh: "nd_shape data = [nx, ny, nz]" and len: "length (nd_data data) = nx * ny * nz"
  shows "slice_array data None None None None = data"
proof -
  have "slice_nd [nx, ny, nz] (map (\<lambda>n. (0, n)) [nx, ny, nz]) (nd_data data) = nd_data data"
    using len by (intro slice_nd_full) (simp add: mult.assoc)
  then have d: "slice_nd [nx, ny, nz] [(0, nx), (0, ny), (0, nz)] (nd_data data) = nd_data data"
    by simp
  show ?thesis
    unfolding slice_array_def Let_def sh index_nd_def slice_or_full_def using d sh
    by simp
qed


section \<open>The HDF5 writer and reader: results\<close>


lemma str_nat_Suc_0: "str_nat (Suc 0) = ''1''"
  using str_nat_1 by simp

lemma write_hdf5_total:
  assumes g: "gname \<noteq> []" "gname \<noteq> ''implements''"
  shows "\<exists>written. write_hdf5 fs data fname gname overwrite =
     Some (Inr (write_file fs written (Hdf5File (h5_layout gname data))))"
proof (cases "\<not> overwrite \<and> isfile fs (fname @ ''.h5'')")
  case True
  obtain name where "suggest_new_fname fs (fname @ ''.h5'') = Some (Inr name)"
    using suggest_new_fname_h5_total by blast
  then have "write_hdf5 fs data fname gname overwrite =
     Some (Inr (write_file fs name (Hdf5File (h5_layout gname data))))"
    unfolding write_hdf5_def Let_def using True h5_create_layout [OF g] by simp
  then show ?thesis by blast
next
  case False
  then have "write_hdf5 fs data fname gname overwrite =
     Some (Inr (write_file fs (fname @ ''.h5'') (Hdf5File (h5_layout gname data))))"
    unfolding write_hdf5_def Let_def using h5_create_layout [OF g] by auto
  then show ?thesis by blast
qed

lemma read_hdf5_written:
  assumes g: "gname \<noteq> ''implements''"
    and sh: "nd_shape data = [nx, ny, nz]" and len: "length (nd_data data) = nx * ny * nz"
  shows "read_hdf5 (write_file fs written (Hdf5File (h5_layout gname data))) written
           (gname @ ''/data'') None None None None = Inr data"
proof -
  have "lookup_file (write_file fs written (Hdf5File (h5_layout gname data)))
          (abspath (write_file fs written (Hdf5File (h5_layout gname data))) written)
        = Some (Hdf5File (h5_layout gname data))"
    by (simp add: lookup_write_file)
  then show ?thesis
    unfolding read_hdf5_def Let_def
    using h5_layout_data [OF g, of data] slice_array_default_3d [OF sh len]
    by simp
qed

text \<open>Claim C6: with \<open>out.h5\<close> and \<open>out-1.h5\<close> present and \<open>out-2.h5\<close> free, \<open>write_hdf5\<close> with
  base name \<open>out\<close> and \<open>overwrite\<close> unset writes \<open>out-2.h5\<close> and leaves every other file,
  the two existing ones among them, as it was. In general, for a base name without a dot
  whose file exists, the file written is \<open>base-N.h5\<close> for the first \<open>N\<close>, counting from 1,
  whose candidate name is not a file.\<close>

theorem write_hdf5_collision_avoidance:
  assumes g: "gname \<noteq> []" "gname \<noteq> ''implements''"
  shows "(CHR ''.'' \<notin> set base \<and> isfile fs (base @ ''.h5'') \<and> 1 \<le> N
          \<and> (\<forall>n. 1 \<le> n \<and> n < N \<longrightarrow> isfile fs (base @ ''-'' @ str_nat n @ ''.h5''))
          \<and> \<not> isfile fs (base @ ''-'' @ str_nat N @ ''.h5'')
        \<longrightarrow> write_hdf5 fs data base gname False =
              Some (Inr (write_file fs (base @ ''-'' @ str_nat N @ ''.h5'')
                           (Hdf5File (h5_layout gname data)))))
    \<and> (isfile fs ''out.h5'' \<and> isfile fs ''out-1.h5'' \<and> \<not> isfile fs ''out-2.h5''
        \<longrightarrow> (\<exists>fs'. write_hdf5 fs data ''out'' gname False = Some (Inr fs')
              \<and> lookup_file fs' ''out-2.h5'' = Some (Hdf5File (h5_layout gname data))
              \<and> lookup_file fs' ''out.h5'' = lookup_file fs ''out.h5''
              \<and> lookup_file fs' ''out-1.h5'' = lookup_file fs ''out-1.h5''
              \<and> (\<forall>p. abspath fs p \<noteq> abspath fs ''out-2.h5''
                    \<longrightarrow> lookup_file fs' p = lookup_file fs p)))"
proof (intro conjI impI)
  assume "CHR ''.'' \<notin> set base \<and> isfile fs (base @ ''.h5'') \<and> 1 \<le> N
          \<and> (\<forall>n. 1 \<le> n \<and> n < N \<longrightarrow> isfile fs (base @ ''-'' @ str_nat n @ ''.h5''))
          \<and> \<not> isfile fs (base @ ''-'' @ str_nat N @ ''.h5'')"
  then show "write_hdf5 fs data base gname False =
      Some (Inr (write_file fs (base @ ''-'' @ str_nat N @ ''.h5'') (Hdf5File (h5_layout gname data))))"
    using g by (intro write_hdf5_first_free) blast+
next
  assume a: "isfile fs ''out.h5'' \<and> isfile fs ''out-1.h5'' \<and> \<not> isfile fs ''out-2.h5''"
  have below: "\<forall>n. 1 \<le> n \<and> n < 2 \<longrightarrow> isfile fs (''out'' @ ''-'' @ str_nat n @ ''.h5'')"
  proof (intro allI impI)
    fix n :: nat assume "1 \<le> n \<and> n < 2"
    then have "n = 1" by simp
    with a show "isfile fs (''out'' @ ''-'' @ str_nat n @ ''.h5'')" by (simp add: str_nat_Suc_0)
  qed
  have "write_hdf5 fs data ''out'' gname False =
      Some (Inr (write_file fs (''out'' @ ''-'' @ str_nat 2 @ ''.h5'') (Hdf5File (h5_layout gname data))))"
    using a below g by (intro write_hdf5_first_free) (simp_all add: str_nat_2)
  then have w: "write_hdf5 fs data ''out'' gname False =
      Some (Inr (write_file fs ''out-2.h5'' (Hdf5File (h5_layout gname data))))"
    by (simp add: str_nat_2)
  have "abspath fs ''out.h5'' \<noteq> abspath fs ''out-2.h5''"
    and "abspath fs ''out-1.h5'' \<noteq> abspath fs ''out-2.h5''"
    by (simp_all add: abspath_def)
  then show "\<exists>fs'. write_hdf5 fs data ''out'' gname False = Some (Inr fs')
      \<and> lookup_file fs' ''out-2.h5'' = Some (Hdf5File (h5_layout gname data))
      \<and> lookup_file fs' ''out.h5'' = lookup_file fs ''out.h5''
      \<and> lookup_file fs' ''out-1.h5'' = lookup_file fs ''out-1.h5''
      \<and> (\<forall>p. abspath fs p \<noteq> abspath fs ''out-2.h5'' \<longrightarrow> lookup_file fs' p = lookup_file fs p)"
    using w by (simp add: lookup_write_file)
qed

theorem write_hdf5_collision_avoidance_witness:
  "''exchange'' \<noteq> [] \<and> ''exchange'' \<noteq> ''implements''
   \<and> isfile \<lparr>fs_cwd = ''home/u'', fs_files = [(''/home/u/out.h5'', OtherFile), (''/home/u/out-1.h5'', OtherFile)],
              fs_dirs = [''/home/u'']\<rparr> ''out.h5''
   \<and> isfile \<lparr>fs_cwd = ''home/u'', fs_files = [(''/home/u/out.h5'', OtherFile), (''/home/u/out-1.h5'', OtherFile)],
              fs_dirs = [''/home/u'']\<rparr> ''out-1.h5''
   \<and> \<not> isfile \<lparr>fs_cwd = ''home/u'', fs_files = [(''/home/u/out.h5'', OtherFile), (''/home/u/out-1.h5'', OtherFile)],
              fs_dirs = [''/home/u'']\<rparr> ''out-2.h5''
   \<and> (\<exists>fs'. write_hdf5 \<lparr>fs_cwd = ''home/u'', fs_files = [(''/home/u/out.h5'', OtherFile), (''/home/u/out-1.h5'', OtherFile)],
              fs_dirs = [''/home/u'']\<rparr> \<lparr>nd_dtype = Float32, nd_shape = [1, 1, 2], nd_data = [3, 4]\<rparr>
              ''out'' ''exchange'' False = Some (Inr fs')
          \<and> lookup_file fs' ''out-2.h5''
              = Some (Hdf5File (h5_layout ''exchange'' \<lparr>nd_dtype = Float32, nd_shape = [1, 1, 2], nd_data = [3, 4]\<rparr>))
          \<and> lookup_file fs' ''out.h5'' = Some OtherFile
          \<and> lookup_file fs' ''out-1.h5'' = Some OtherFile)"
proof -
  let ?F = "\<lparr>fs_cwd = ''home/u'', fs_files = [(''/home/u/out.h5'', OtherFile), (''/home/u/out-1.h5'', OtherFile)],
              fs_dirs = [''/home/u'']\<rparr>"
  let ?V = "\<lparr>nd_dtype = Float32, nd_shape = [1, 1, 2], nd_data = [3, 4]\<rparr>"
  have g: "''exchange'' \<noteq> []" "''exchange'' \<noteq> ''implements''" by simp_all
  have pre: "isfile ?F ''out.h5'' \<and> isfile ?F ''out-1.h5'' \<and> \<not> isfile ?F ''out-2.h5''"
    by (simp add: isfile_def lookup_file_def abspath_def getcwd_def)
  have old: "lookup_file ?F ''out.h5'' = Some OtherFile" "lookup_file ?F ''out-1.h5'' = Some OtherFile"
    by (simp_all add: lookup_file_def abspath_def getcwd_def)
  from write_hdf5_collision_avoidance [OF g, of "''out''" ?F 2 ?V] pre
  have "\<exists>fs'. write_hdf5 ?F ?V ''out'' ''exchange'' False = Some (Inr fs')
      \<and> lookup_file fs' ''out-2.h5'' = Some (Hdf5File (h5_layout ''exchange'' ?V))
      \<and> lookup_file fs' ''out.h5'' = lookup_file ?F ''out.h5''
      \<and> lookup_file fs' ''out-1.h5'' = lookup_file ?F ''out-1.h5''"
    by blast
  then show ?thesis using g pre unfolding old by blast
qed

text \<open>Claim C7: a three-dimensional volume written by \<open>write_hdf5\<close> (any valid group name,
  \<open>exchange\<close> by default) and read by \<open>read_hdf5\<close> from the file that was written, at the
  path \<open>group/data\<close>, comes back as the same array: same dtype, shape and elements.\<close>

theorem hdf5_round_trip:
  assumes "gname \<noteq> []" and "gname \<noteq> ''implements''"
    and "nd_shape data = [nx, ny, nz]" and "length (nd_data data) = nx * ny * nz"
  shows "\<exists>written. write_hdf5 fs data fname gname overwrite =
            Some (Inr (write_file fs written (Hdf5File (h5_layout gname data))))
         \<and> read_hdf5 (write_file fs written (Hdf5File (h5_layout gname data))) written
              (gname @ ''/data'') None None None None = Inr data"
  using assms write_hdf5_total [of gname fs data fname overwrite]
    read_hdf5_written [of gname data nx ny nz fs]
  by blast

theorem hdf5_round_trip_witness:
  "''exchange'' \<noteq> [] \<and> ''exchange'' \<noteq> ''implements''
   \<and> nd_shape \<lparr>nd_dtype = Float32, nd_shape = [1, 1, 2], nd_data = [3, 4]\<rparr> = [1, 1, 2]
   \<and> length (nd_data \<lparr>nd_dtype = Float32, nd_shape = [1, 1, 2], nd_data = [3, 4]\<rparr>) = 1 * 1 * 2
   \<and> (\<exists>written. write_hdf5 \<lparr>fs_cwd = ''home/u'', fs_files = [], fs_dirs = []\<rparr>
          \<lparr>nd_dtype = Float32, nd_shape = [1, 1, 2], nd_data = [3, 4]\<rparr> ''out'' ''exchange'' False
        = Some (Inr (write_file \<lparr>fs_cwd = ''home/u'', fs_files = [], fs_dirs = []\<rparr> written
             (Hdf5File (h5_layout ''exchange'' \<lparr>nd_dtype = Float32, nd_shape = [1, 1, 2], nd_data = [3, 4]\<rparr>))))
      \<and> read_hdf5 (write_file \<lparr>fs_cwd = ''home/u'', fs_files = [], fs_dirs = []\<rparr> written
             (Hdf5File (h5_layout ''exchange'' \<lparr>nd_dtype = Float32, nd_shape = [1, 1, 2], nd_data = [3, 4]\<rparr>)))
           written ''exchange/data'' None None None None
        = Inr \<lparr>nd_dtype = Float32, nd_shape = [1, 1, 2], nd_data = [3, 4]\<rparr>)"
  using hdf5_round_trip [of "''exchange''" "\<lparr>nd_dtype = Float32, nd_shape = [1, 1, 2], nd_data = [3, 4]\<rparr>"
      1 1 2 "\<lparr>fs_cwd = ''home/u'', fs_files = [], fs_dirs = []\<rparr>" "''out''" False]
  by simp


end
